theory Spec2Isabelle
  imports
    Complex_Main
    "HOL-Library.Char_ord"
    "HOL-Library.List_Lexorder"
    "HOL-Library.Sublist"
    "HOL-Library.AList"
    "HOL-Library.Log_Nat"
begin

section \<open>Python values\<close>

text \<open>
  Filter specifications, passage metadata and response metadata are JSON-like Python
  values (\<^verbatim>\<open>Dict[str, Any]\<close>).  A dictionary is an association list in insertion order
  with string keys.  A Python \<^verbatim>\<open>float\<close> is modelled by the rational it denotes, so the
  non-finite floats (\<^verbatim>\<open>nan\<close>, \<^verbatim>\<open>inf\<close>) lie outside the model; a Python \<^verbatim>\<open>str\<close> is a
  \<^typ>\<open>string\<close> in which every \<^typ>\<open>char\<close> stands for one code point.
\<close>

datatype pyval =
    PNone
  | PBool bool
  | PInt int
  | PFloat rat
  | PStr string
  | PList "pyval list"
  | PDict "(string \<times> pyval) list"

text \<open>The exceptions that the modelled code can raise or let through.\<close>

datatype error =
    TypeError
  | AttributeError
  | IndexError
  | ZeroDivisionError
  | OverflowError
  | ValidationError
  | CollaboratorError string

text \<open>\<^verbatim>\<open>isinstance(v, (int, float))\<close>, with the number read; \<^verbatim>\<open>bool\<close> is a subclass of \<^verbatim>\<open>int\<close>.\<close>

fun num_of :: "pyval \<Rightarrow> rat option" where
  "num_of (PBool b) = Some (if b then 1 else 0)"
| "num_of (PInt i) = Some (of_int i)"
| "num_of (PFloat r) = Some r"
| "num_of v = None"

text \<open>\<^verbatim>\<open>isinstance(v, dict)\<close> and \<^verbatim>\<open>isinstance(v, list)\<close>.\<close>

fun dict_of :: "pyval \<Rightarrow> (string \<times> pyval) list option" where
  "dict_of (PDict d) = Some d"
| "dict_of v = None"

fun list_of :: "pyval \<Rightarrow> pyval list option" where
  "list_of (PList xs) = Some xs"
| "list_of v = None"

text \<open>Truth value testing: \<^verbatim>\<open>None\<close>, \<^verbatim>\<open>False\<close>, zero and empty containers are false.\<close>

fun truthy :: "pyval \<Rightarrow> bool" where
  "truthy PNone = False"
| "truthy (PBool b) = b"
| "truthy (PInt i) = (i \<noteq> 0)"
| "truthy (PFloat r) = (r \<noteq> 0)"
| "truthy (PStr s) = (s \<noteq> [])"
| "truthy (PList xs) = (xs \<noteq> [])"
| "truthy (PDict d) = (d \<noteq> [])"

text \<open>
  The operator \<^verbatim>\<open>==\<close>: numbers compare by value across \<^verbatim>\<open>bool\<close>, \<^verbatim>\<open>int\<close> and \<^verbatim>\<open>float\<close>,
  lists elementwise, dictionaries independently of insertion order.
\<close>

fun py_eq :: "pyval \<Rightarrow> pyval \<Rightarrow> bool" where
  "py_eq PNone b = (b = PNone)"
| "py_eq (PStr s) b = (b = PStr s)"
| "py_eq (PList xs) b = (case b of PList ys \<Rightarrow> list_all2 py_eq xs ys | _ \<Rightarrow> False)"
| "py_eq (PDict d) b =
     (case b of
        PDict e \<Rightarrow>
          length d = length e \<and>
          list_all (\<lambda>(k, v). case map_of e k of None \<Rightarrow> False | Some w \<Rightarrow> py_eq v w) d
      | _ \<Rightarrow> False)"
| "py_eq a b = (case (num_of a, num_of b) of (Some x, Some y) \<Rightarrow> x = y | _ \<Rightarrow> False)"

text \<open>The operator \<^verbatim>\<open>in\<close> on a list.\<close>

definition py_in :: "pyval \<Rightarrow> pyval list \<Rightarrow> bool" where
  "py_in v xs = list_ex (py_eq v) xs"

text \<open>
  The operators \<^verbatim>\<open><\<close> and \<^verbatim>\<open>>\<close>: defined between two strings (code point order),
  between two numbers and between two lists (decided at the first position where the
  elements are not \<^verbatim>\<open>==\<close>); every other pair of operands raises \<^verbatim>\<open>TypeError\<close>.
\<close>

datatype cmp_op = Lt | Gt

fun py_cmp :: "cmp_op \<Rightarrow> pyval \<Rightarrow> pyval \<Rightarrow> error + bool"
and py_cmp_list :: "cmp_op \<Rightarrow> pyval list \<Rightarrow> pyval list \<Rightarrow> error + bool" where
  "py_cmp Lt (PStr s) (PStr t) = Inr (s < t)"
| "py_cmp Gt (PStr s) (PStr t) = Inr (t < s)"
| "py_cmp opr (PList xs) (PList ys) = py_cmp_list opr xs ys"
| "py_cmp opr a b =
     (case (num_of a, num_of b) of
        (Some x, Some y) \<Rightarrow> Inr (case opr of Lt \<Rightarrow> x < y | Gt \<Rightarrow> y < x)
      | _ \<Rightarrow> Inl TypeError)"
| "py_cmp_list opr (x # xs) (y # ys) =
     (if py_eq x y then py_cmp_list opr xs ys else py_cmp opr x y)"
| "py_cmp_list opr xs ys =
     Inr (case opr of Lt \<Rightarrow> length xs < length ys | Gt \<Rightarrow> length ys < length xs)"

text \<open>\<^verbatim>\<open>d.get(k)\<close> and \<^verbatim>\<open>d.get(k, default)\<close>.\<close>

definition dict_get :: "(string \<times> pyval) list \<Rightarrow> string \<Rightarrow> pyval" where
  "dict_get d k = (case map_of d k of None \<Rightarrow> PNone | Some v \<Rightarrow> v)"

definition dict_get_default :: "(string \<times> pyval) list \<Rightarrow> string \<Rightarrow> pyval \<Rightarrow> pyval" where
  "dict_get_default d k dflt = (case map_of d k of None \<Rightarrow> dflt | Some v \<Rightarrow> v)"

text \<open>\<^verbatim>\<open>str(n)\<close> for a non-negative integer, and \<^verbatim>\<open>sep.join(xs)\<close>.\<close>

fun str_of_nat :: "nat \<Rightarrow> string" where
  "str_of_nat n =
     (if n < 10 then [''0123456789'' ! n]
      else str_of_nat (n div 10) @ [''0123456789'' ! (n mod 10)])"

declare str_of_nat.simps [simp del]

fun py_join :: "string \<Rightarrow> string list \<Rightarrow> string" where
  "py_join sep [] = []"
| "py_join sep [x] = x"
| "py_join sep (x # y # ys) = x @ sep @ py_join sep (y # ys)"

subsection \<open>True division of integers\<close>




section \<open>Data model (\<^verbatim>\<open>app/models/schemas.py\<close>)\<close>

record EmbeddingInfo =
  vector_id :: string
  similarity_score :: rat
  dimension :: int
  model_name :: string

record Citation =
  doc_id :: pyval
  document_name :: pyval
  page_number :: pyval
  paragraph_number :: pyval
  content_snippet :: string
  position_rect :: pyval
  start_offset :: "int option"
  end_offset :: "int option"

record EnhancedCitation = Citation +
  embedding_info :: "EmbeddingInfo option"

record QueryResponse =
  answers :: "string list"
  citations :: "Citation list"
  metadata :: "(string \<times> pyval) list"

record EnhancedQueryResponse =
  answers :: "string list"
  citations :: "EnhancedCitation list"
  metadata :: "(string \<times> pyval) list"

record ThemeResponse =
  themes :: "string list"
  supporting_documents :: "(string \<times> pyval list) list"
  detailed_citations :: "(string \<times> Citation list) list"
  metadata :: "(string \<times> pyval) list"

record DocumentChunk =
  content :: string
  metadata :: "(string \<times> pyval) list"
  similarity_score :: rat

section \<open>Document filter (\<^verbatim>\<open>app/core/document_filter.py\<close>)\<close>

text \<open>
  \<^verbatim>\<open>_check_date_range\<close>: a falsy document date passes; otherwise the date is compared
  with each truthy bound by \<^verbatim>\<open><\<close> and \<^verbatim>\<open>>\<close>, which raise on operands they do not order.
\<close>

definition check_date_range :: "DocumentChunk \<Rightarrow> (string \<times> pyval) list \<Rightarrow> error + bool" where
  "check_date_range chunk date_range =
     (let doc_date = dict_get (metadata chunk) ''document_date'' in
      if \<not> truthy doc_date then Inr True
      else
        let start_date = dict_get date_range ''start'';
            end_date = dict_get date_range ''end''
        in case (if truthy start_date then py_cmp Lt doc_date start_date else Inr False) of
             Inl e \<Rightarrow> Inl e
           | Inr True \<Rightarrow> Inr False
           | Inr False \<Rightarrow>
               (case (if truthy end_date then py_cmp Gt doc_date end_date else Inr False) of
                  Inl e \<Rightarrow> Inl e
                | Inr True \<Rightarrow> Inr False
                | Inr False \<Rightarrow> Inr True))"

text \<open>\<^verbatim>\<open>_check_metadata_filter\<close>.\<close>

definition check_metadata_filter :: "pyval \<Rightarrow> pyval \<Rightarrow> bool" where
  "check_metadata_filter metadata_value filter_value =
     (case list_of filter_value of
        Some xs \<Rightarrow> py_in metadata_value xs
      | None \<Rightarrow> py_eq metadata_value filter_value)"

text \<open>
  One round of the loop of \<^verbatim>\<open>_should_include_chunk\<close>: the \<^verbatim>\<open>if\<close>/\<^verbatim>\<open>elif\<close> chain on one
  item of the filter specification.  \<open>Inr False\<close> is the early \<^verbatim>\<open>return False\<close>,
  \<open>Inr True\<close> lets the loop go on.
\<close>

definition filter_item :: "DocumentChunk \<Rightarrow> string \<Rightarrow> pyval \<Rightarrow> error + bool" where
  "filter_item chunk key val =
     (case (if key = ''date_range'' then dict_of val else None) of
        Some date_range \<Rightarrow> check_date_range chunk date_range
      | None \<Rightarrow>
     (case (if key = ''relevance_threshold'' then num_of val else None) of
        Some threshold \<Rightarrow> Inr (\<not> similarity_score chunk < threshold)
      | None \<Rightarrow>
     (case (if key = ''document_ids'' then list_of val else None) of
        Some ids \<Rightarrow> Inr (py_in (dict_get (metadata chunk) ''doc_id'') ids)
      | None \<Rightarrow>
     (case map_of (metadata chunk) key of
        Some metadata_value \<Rightarrow> Inr (check_metadata_filter metadata_value val)
      | None \<Rightarrow> Inr True))))"

fun should_include_chunk :: "DocumentChunk \<Rightarrow> (string \<times> pyval) list \<Rightarrow> error + bool" where
  "should_include_chunk chunk [] = Inr True"
| "should_include_chunk chunk ((key, val) # rest) =
     (case filter_item chunk key val of
        Inl e \<Rightarrow> Inl e
      | Inr False \<Rightarrow> Inr False
      | Inr True \<Rightarrow> should_include_chunk chunk rest)"

text \<open>The loop of \<^verbatim>\<open>apply_filters\<close> over the passages, appending the survivors in order.\<close>

fun filtered_chunks_of :: "DocumentChunk list \<Rightarrow> (string \<times> pyval) list \<Rightarrow> error + DocumentChunk list" where
  "filtered_chunks_of [] filters = Inr []"
| "filtered_chunks_of (chunk # chunks) filters =
     (case should_include_chunk chunk filters of
        Inl e \<Rightarrow> Inl e
      | Inr keep \<Rightarrow>
          (case filtered_chunks_of chunks filters of
             Inl e \<Rightarrow> Inl e
           | Inr rest \<Rightarrow> Inr (if keep then chunk # rest else rest)))"

text \<open>\<^verbatim>\<open>apply_filters\<close>: \<^verbatim>\<open>not filters\<close> holds for \<^verbatim>\<open>None\<close> and for the empty dictionary.\<close>

definition apply_filters ::
  "DocumentChunk list \<Rightarrow> (string \<times> pyval) list option \<Rightarrow> error + DocumentChunk list" where
  "apply_filters chunks filters =
     (case filters of
        None \<Rightarrow> Inr chunks
      | Some f \<Rightarrow> if f = [] then Inr chunks else filtered_chunks_of chunks f)"

section \<open>Citation builder (\<^verbatim>\<open>app/core/citation_builder.py\<close>)\<close>

text \<open>\<^verbatim>\<open>_create_snippet\<close>, with its default \<^verbatim>\<open>max_length = 200\<close>.\<close>

definition create_snippet :: "string \<Rightarrow> string" where
  "create_snippet text =
     (if length text > 200 then take 200 text @ ''...'' else text)"

text \<open>
  \<^verbatim>\<open>chunk.metadata.get("position", {}).get("rect")\<close>: the second \<^verbatim>\<open>get\<close> raises
  \<^verbatim>\<open>AttributeError\<close> when the stored position is not a dictionary.
\<close>

definition position_rect_of :: "(string \<times> pyval) list \<Rightarrow> error + pyval" where
  "position_rect_of md =
     (case map_of md ''position'' of
        None \<Rightarrow> Inr PNone
      | Some v \<Rightarrow>
          (case dict_of v of
             Some position \<Rightarrow> Inr (dict_get position ''rect'')
           | None \<Rightarrow> Inl AttributeError))"

text \<open>The \<^verbatim>\<open>Citation(...)\<close> built in one round of the loop of \<^verbatim>\<open>create_basic_citations\<close>.\<close>

definition basic_citation :: "DocumentChunk \<Rightarrow> error + Citation" where
  "basic_citation chunk =
     (case position_rect_of (metadata chunk) of
        Inl e \<Rightarrow> Inl e
      | Inr rect \<Rightarrow>
          Inr \<lparr>doc_id = dict_get_default (metadata chunk) ''doc_id'' (PStr ''Unknown''),
               document_name = dict_get_default (metadata chunk) ''filename'' (PStr ''Unknown''),
               page_number = dict_get (metadata chunk) ''page_number'',
               paragraph_number = dict_get (metadata chunk) ''paragraph_number'',
               content_snippet = create_snippet (content chunk),
               position_rect = rect,
               start_offset = None,
               end_offset = None\<rparr>)"

fun create_basic_citations :: "DocumentChunk list \<Rightarrow> error + Citation list" where
  "create_basic_citations [] = Inr []"
| "create_basic_citations (chunk # chunks) =
     (case basic_citation chunk of
        Inl e \<Rightarrow> Inl e
      | Inr citation \<Rightarrow>
          (case create_basic_citations chunks of
             Inl e \<Rightarrow> Inl e
           | Inr rest \<Rightarrow> Inr (citation # rest)))"

text \<open>
  A scored result as \<^verbatim>\<open>create_enhanced_citations\<close> reads it: the attributes \<^verbatim>\<open>id\<close> and
  \<^verbatim>\<open>score\<close>.  The type of \<^verbatim>\<open>id\<close> is left open; \<^verbatim>\<open>str\<close> on it is a parameter of the
  builder.
\<close>

record 'i VectorResult =
  result_id :: 'i
  score :: rat

text \<open>The \<^verbatim>\<open>EnhancedCitation(...)\<close> built in one round of the loop.\<close>

definition enhanced_citation :: "DocumentChunk \<Rightarrow> EmbeddingInfo option \<Rightarrow> error + EnhancedCitation" where
  "enhanced_citation chunk info =
     (case position_rect_of (metadata chunk) of
        Inl e \<Rightarrow> Inl e
      | Inr rect \<Rightarrow>
          Inr \<lparr>doc_id = dict_get_default (metadata chunk) ''doc_id'' (PStr ''Unknown''),
               document_name = dict_get_default (metadata chunk) ''filename'' (PStr ''Unknown''),
               page_number = dict_get (metadata chunk) ''page_number'',
               paragraph_number = dict_get (metadata chunk) ''paragraph_number'',
               content_snippet = create_snippet (content chunk),
               position_rect = rect,
               start_offset = None,
               end_offset = None,
               embedding_info = info\<rparr>)"

text \<open>The loop \<^verbatim>\<open>for i, chunk in enumerate(chunks)\<close>, started at \<open>i\<close>.\<close>

fun enhanced_citations_from ::
  "('i \<Rightarrow> string) \<Rightarrow> nat \<Rightarrow> DocumentChunk list \<Rightarrow> 'i VectorResult list \<Rightarrow> error + EnhancedCitation list" where
  "enhanced_citations_from str i [] vector_results = Inr []"
| "enhanced_citations_from str i (chunk # chunks) vector_results =
     (let info =
        (if i < length vector_results then
           Some \<lparr>vector_id = str (result_id (vector_results ! i)),
                 similarity_score = score (vector_results ! i),
                 dimension = 768,
                 model_name = ''embedding-model''\<rparr>
         else None)
      in case enhanced_citation chunk info of
           Inl e \<Rightarrow> Inl e
         | Inr citation \<Rightarrow>
             (case enhanced_citations_from str (Suc i) chunks vector_results of
                Inl e \<Rightarrow> Inl e
              | Inr rest \<Rightarrow> Inr (citation # rest)))"

definition create_enhanced_citations ::
  "('i \<Rightarrow> string) \<Rightarrow> DocumentChunk list \<Rightarrow> 'i VectorResult list \<Rightarrow> error + EnhancedCitation list" where
  "create_enhanced_citations str chunks vector_results =
     enhanced_citations_from str 0 chunks vector_results"

section \<open>Query engine (\<^verbatim>\<open>app/core/query_engine.py\<close>)\<close>

subsection \<open>Collaborators\<close>

text \<open>
  What the retriever hands back: a raw external document (it has \<^verbatim>\<open>page_content\<close> and
  \<^verbatim>\<open>metadata\<close>), an already normalised passage (it has \<^verbatim>\<open>content\<close>), or anything else.
\<close>

datatype raw_result =
    LangChainDocument string "(string \<times> pyval) list"
  | ConvertedChunk DocumentChunk
  | UnknownResult

text \<open>
  One theme descriptor of the generative collaborator, after the defaults of
  \<^verbatim>\<open>theme.get("theme_name", "")\<close> and \<^verbatim>\<open>theme.get("document_indices", [])\<close>; the
  indices are JSON integers.
\<close>

record ThemeData =
  theme_name :: string
  document_indices :: "int list"

text \<open>
  The engine holds its two collaborators.  A call of a collaborator may raise; the
  engine lets the exception through.  \<^verbatim>\<open>get_chunks_by_document_id\<close> yields dictionaries
  with the keys \<^verbatim>\<open>content\<close>, \<^verbatim>\<open>metadata\<close> and \<^verbatim>\<open>score\<close>, which the engine copies field
  by field into a \<^verbatim>\<open>DocumentChunk\<close>; they are given here as the passages they become.
  \<^verbatim>\<open>list_all_documents\<close> is the dictionary under the key \<^verbatim>\<open>documents\<close>.
\<close>

record VectorStoreService =
  similarity_search :: "string \<Rightarrow> nat \<Rightarrow> error + raw_result list"
  get_chunks_by_document_id :: "string \<Rightarrow> DocumentChunk list"
  list_all_documents :: "(string \<times> pyval) list"

record LLMService =
  answer_query :: "string \<Rightarrow> string \<Rightarrow> error + string"
  extract_themes :: "string \<Rightarrow> error + ThemeData list"

record QueryEngine =
  vector_store :: VectorStoreService
  llm_service :: LLMService

subsection \<open>Retrieval pipeline\<close>

fun convert_to_document_chunks :: "raw_result list \<Rightarrow> DocumentChunk list" where
  "convert_to_document_chunks [] = []"
| "convert_to_document_chunks (LangChainDocument page_content md # docs) =
     \<lparr>content = page_content, metadata = md, similarity_score = 0\<rparr>
       # convert_to_document_chunks docs"
| "convert_to_document_chunks (ConvertedChunk chunk # docs) =
     chunk # convert_to_document_chunks docs"
| "convert_to_document_chunks (UnknownResult # docs) = convert_to_document_chunks docs"

text \<open>
  Step 2 of \<^verbatim>\<open>process_query\<close>.  The test \<^verbatim>\<open>if selected_document_ids:\<close> holds for a
  non-empty list only: \<^verbatim>\<open>None\<close> and \<^verbatim>\<open>[]\<close> both leave the passages as they are.
\<close>

definition filter_selected :: "string list option \<Rightarrow> DocumentChunk list \<Rightarrow> DocumentChunk list" where
  "filter_selected selected_document_ids chunks =
     (case selected_document_ids of
        None \<Rightarrow> chunks
      | Some ids \<Rightarrow>
          if ids \<noteq> [] then
            filter (\<lambda>chunk. py_in (dict_get (metadata chunk) ''doc_id'') (map PStr ids)) chunks
          else chunks)"

text \<open>The message of the empty-result response, under the same test.\<close>

definition no_results_message :: "string list option \<Rightarrow> string" where
  "no_results_message selected_document_ids =
     (case selected_document_ids of
        None \<Rightarrow> ''No relevant documents found matching the criteria.''
      | Some ids \<Rightarrow>
          if ids \<noteq> [] then
            ''No relevant documents found matching the criteria.'' @
            '' Search was limited to '' @ str_of_nat (length ids) @ '' selected documents.''
          else ''No relevant documents found matching the criteria.'')"

definition filters_value :: "(string \<times> pyval) list option \<Rightarrow> pyval" where
  "filters_value filters = (case filters of None \<Rightarrow> PNone | Some f \<Rightarrow> PDict f)"

definition selection_value :: "string list option \<Rightarrow> pyval" where
  "selection_value selected_document_ids =
     (case selected_document_ids of None \<Rightarrow> PNone | Some ids \<Rightarrow> PList (map PStr ids))"

definition documents_searched :: "string list option \<Rightarrow> pyval" where
  "documents_searched selected_document_ids =
     (case selected_document_ids of
        None \<Rightarrow> PStr ''all''
      | Some ids \<Rightarrow> if ids \<noteq> [] then PInt (int (length ids)) else PStr ''all'')"

definition process_query ::
  "QueryEngine \<Rightarrow> string \<Rightarrow> (string \<times> pyval) list option \<Rightarrow> string list option
     \<Rightarrow> error + QueryResponse" where
  "process_query self query filters selected_document_ids =
     (case similarity_search (vector_store self) query 10 of
        Inl e \<Rightarrow> Inl e
      | Inr raw_results \<Rightarrow>
     (case apply_filters
             (filter_selected selected_document_ids (convert_to_document_chunks raw_results))
             filters of
        Inl e \<Rightarrow> Inl e
      | Inr filtered_chunks \<Rightarrow>
          if filtered_chunks = [] then
            Inr \<lparr>QueryResponse.answers = [no_results_message selected_document_ids],
                 QueryResponse.citations = [],
                 QueryResponse.metadata =
                   [(''query'', PStr query),
                    (''filters'', filters_value filters),
                    (''selected_document_ids'', selection_value selected_document_ids),
                    (''total_results'', PInt 0)]\<rparr>
          else
            (case answer_query (llm_service self) query
                    (py_join [CHR 0x0A, CHR 0x0A] (map content filtered_chunks)) of
               Inl e \<Rightarrow> Inl e
             | Inr answer \<Rightarrow>
            (case create_basic_citations filtered_chunks of
               Inl e \<Rightarrow> Inl e
             | Inr cits \<Rightarrow>
                 Inr \<lparr>QueryResponse.answers = [answer],
                      QueryResponse.citations = cits,
                      QueryResponse.metadata =
                        [(''query'', PStr query),
                         (''filters'', filters_value filters),
                         (''selected_document_ids'', selection_value selected_document_ids),
                         (''total_results'', PInt (int (length filtered_chunks))),
                         (''documents_searched'', documents_searched selected_document_ids)]\<rparr>))))"

text \<open>
  \<^verbatim>\<open>process_enhanced_query\<close> passes the literal \<^verbatim>\<open>[]\<close> as the scored results, so the type
  of their identifiers and \<^verbatim>\<open>str\<close> on it play no part.
\<close>

definition process_enhanced_query ::
  "QueryEngine \<Rightarrow> string \<Rightarrow> (string \<times> pyval) list option \<Rightarrow> string list option
     \<Rightarrow> error + EnhancedQueryResponse" where
  "process_enhanced_query self query filters selected_document_ids =
     (case similarity_search (vector_store self) query 10 of
        Inl e \<Rightarrow> Inl e
      | Inr raw_results \<Rightarrow>
     (case apply_filters
             (filter_selected selected_document_ids (convert_to_document_chunks raw_results))
             filters of
        Inl e \<Rightarrow> Inl e
      | Inr filtered_chunks \<Rightarrow>
          if filtered_chunks = [] then
            Inr \<lparr>EnhancedQueryResponse.answers = [no_results_message selected_document_ids],
                 EnhancedQueryResponse.citations = [],
                 EnhancedQueryResponse.metadata =
                   [(''query'', PStr query),
                    (''filters'', filters_value filters),
                    (''selected_document_ids'', selection_value selected_document_ids),
                    (''total_results'', PInt 0)]\<rparr>
          else
            (case answer_query (llm_service self) query
                    (py_join [CHR 0x0A, CHR 0x0A] (map content filtered_chunks)) of
               Inl e \<Rightarrow> Inl e
             | Inr answer \<Rightarrow>
            (case create_enhanced_citations (\<lambda>u :: unit. []) filtered_chunks [] of
               Inl e \<Rightarrow> Inl e
             | Inr cits \<Rightarrow>
                 Inr \<lparr>EnhancedQueryResponse.answers = [answer],
                      EnhancedQueryResponse.citations = cits,
                      EnhancedQueryResponse.metadata =
                        [(''query'', PStr query),
                         (''filters'', filters_value filters),
                         (''selected_document_ids'', selection_value selected_document_ids),
                         (''total_results'', PInt (int (length filtered_chunks))),
                         (''documents_searched'', documents_searched selected_document_ids)]\<rparr>))))"

subsection \<open>Theme extraction\<close>

text \<open>\<^verbatim>\<open>xs[i]\<close>: a negative index counts from the end; out of range raises \<^verbatim>\<open>IndexError\<close>.\<close>

definition py_index :: "'a list \<Rightarrow> int \<Rightarrow> error + 'a" where
  "py_index xs i =
     (let n = int (length xs) in
      if 0 \<le> i \<and> i < n then Inr (xs ! nat i)
      else if - n \<le> i \<and> i < 0 then Inr (xs ! nat (i + n))
      else Inl IndexError)"

text \<open>
  The loop \<^verbatim>\<open>for idx in doc_indices: if idx < len(chunks): ... chunks[idx]\<close>, which all
  three entry points have: it yields \<^verbatim>\<open>theme_chunks\<close>.
\<close>

fun resolve_indices :: "DocumentChunk list \<Rightarrow> int list \<Rightarrow> error + DocumentChunk list" where
  "resolve_indices chunks [] = Inr []"
| "resolve_indices chunks (idx # doc_indices) =
     (if idx < int (length chunks) then
        (case py_index chunks idx of
           Inl e \<Rightarrow> Inl e
         | Inr chunk \<Rightarrow>
             (case resolve_indices chunks doc_indices of
                Inl e \<Rightarrow> Inl e
              | Inr theme_chunks \<Rightarrow> Inr (chunk # theme_chunks)))
      else resolve_indices chunks doc_indices)"

text \<open>
  \<^verbatim>\<open>supporting_docs\<close> grows in step with \<^verbatim>\<open>theme_chunks\<close>: one
  \<^verbatim>\<open>chunk.metadata.get("doc_id", "Unknown")\<close> for each resolved passage.
\<close>

definition supporting_docs_of :: "DocumentChunk list \<Rightarrow> pyval list" where
  "supporting_docs_of theme_chunks =
     map (\<lambda>chunk. dict_get_default (metadata chunk) ''doc_id'' (PStr ''Unknown'')) theme_chunks"

text \<open>
  \<^verbatim>\<open>list(set(xs))\<close>: an unhashable element (a list or a dictionary) raises
  \<^verbatim>\<open>TypeError\<close>; equal elements collapse.  The order in which a set lists its
  elements depends on their hashes and on the hash seed of the process: it is the
  parameter \<open>iteration_order\<close>, a rearrangement of the distinct elements.
\<close>

fun hashable :: "pyval \<Rightarrow> bool" where
  "hashable (PList xs) = False"
| "hashable (PDict d) = False"
| "hashable v = True"

definition list_of_set ::
  "(pyval list \<Rightarrow> pyval list) \<Rightarrow> pyval list \<Rightarrow> error + pyval list" where
  "list_of_set iteration_order xs =
     (if list_all hashable xs then
        Inr (iteration_order (foldl (\<lambda>acc x. if py_in x acc then acc else acc @ [x]) [] xs))
      else Inl TypeError)"

text \<open>
  The numbered preview handed to the generative collaborator:
  \<^verbatim>\<open>"\n\n".join([f"Document {i+1}: {chunk.content[:500]}..." for i, chunk in enumerate(chunks)])\<close>
  (the single-document variant says \<^verbatim>\<open>Chunk\<close> for \<^verbatim>\<open>Document\<close>).
\<close>

definition documents_text :: "string \<Rightarrow> DocumentChunk list \<Rightarrow> string" where
  "documents_text label chunks =
     py_join [CHR 0x0A, CHR 0x0A]
       (map (\<lambda>(i, chunk). label @ '' '' @ str_of_nat (i + 1) @ '': '' @
                            take 500 (content chunk) @ ''...'')
            (enumerate 0 chunks))"

text \<open>
  The loop \<^verbatim>\<open>for theme in themes_data\<close> of \<^verbatim>\<open>extract_themes\<close> and
  \<^verbatim>\<open>extract_all_themes\<close>, on the two dictionaries it fills.  The corpus-wide variant
  passes \<open>list_of_set iteration_order\<close> for \<open>dedup\<close>, the query-scoped one \<open>Inr\<close>.
\<close>

fun organize_themes ::
  "(pyval list \<Rightarrow> error + pyval list) \<Rightarrow> DocumentChunk list \<Rightarrow> ThemeData list
     \<Rightarrow> (string \<times> pyval list) list \<times> (string \<times> Citation list) list
     \<Rightarrow> error + (string \<times> pyval list) list \<times> (string \<times> Citation list) list" where
  "organize_themes dedup chunks [] acc = Inr acc"
| "organize_themes dedup chunks (theme # themes_data) (supporting, detailed) =
     (case resolve_indices chunks (document_indices theme) of
        Inl e \<Rightarrow> Inl e
      | Inr theme_chunks \<Rightarrow>
     (case dedup (supporting_docs_of theme_chunks) of
        Inl e \<Rightarrow> Inl e
      | Inr supporting_docs \<Rightarrow>
     (case create_basic_citations theme_chunks of
        Inl e \<Rightarrow> Inl e
      | Inr cits \<Rightarrow>
          organize_themes dedup chunks themes_data
            (AList.update (theme_name theme) supporting_docs supporting,
             AList.update (theme_name theme) cits detailed))))"

text \<open>The same loop in \<^verbatim>\<open>extract_themes_for_document\<close>, which fills the citations only.\<close>

fun organize_document_themes ::
  "DocumentChunk list \<Rightarrow> ThemeData list \<Rightarrow> (string \<times> Citation list) list
     \<Rightarrow> error + (string \<times> Citation list) list" where
  "organize_document_themes chunks [] detailed = Inr detailed"
| "organize_document_themes chunks (theme # themes_data) detailed =
     (case resolve_indices chunks (document_indices theme) of
        Inl e \<Rightarrow> Inl e
      | Inr theme_chunks \<Rightarrow>
     (case create_basic_citations theme_chunks of
        Inl e \<Rightarrow> Inl e
      | Inr cits \<Rightarrow>
          organize_document_themes chunks themes_data
            (AList.update (theme_name theme) cits detailed)))"

text \<open>
  \<^verbatim>\<open>ThemeResponse\<close> is a pydantic model: its constructor validates
  \<^verbatim>\<open>supporting_documents\<close> against \<^verbatim>\<open>Dict[str, List[str]]\<close> and raises
  \<^verbatim>\<open>ValidationError\<close> when a supporting document identifier is not a string.
\<close>

fun is_str :: "pyval \<Rightarrow> bool" where
  "is_str (PStr s) = True"
| "is_str v = False"

definition theme_response ::
  "string list \<Rightarrow> (string \<times> pyval list) list \<Rightarrow> (string \<times> Citation list) list
     \<Rightarrow> (string \<times> pyval) list \<Rightarrow> error + ThemeResponse" where
  "theme_response names supporting detailed md =
     (if list_all (\<lambda>entry. list_all is_str (snd entry)) supporting then
        Inr \<lparr>themes = names, supporting_documents = supporting,
             detailed_citations = detailed, metadata = md\<rparr>
      else Inl ValidationError)"

definition extract_themes ::
  "QueryEngine \<Rightarrow> string \<Rightarrow> (string \<times> pyval) list option \<Rightarrow> error + ThemeResponse" where
  "extract_themes self query filters =
     (case similarity_search (vector_store self) query 20 of
        Inl e \<Rightarrow> Inl e
      | Inr raw_results \<Rightarrow>
     (case apply_filters (convert_to_document_chunks raw_results) filters of
        Inl e \<Rightarrow> Inl e
      | Inr filtered_chunks \<Rightarrow>
          if filtered_chunks = [] then
            theme_response [] [] []
              [(''query'', PStr query), (''filters'', filters_value filters),
               (''total_results'', PInt 0)]
          else
            (case LLMService.extract_themes (llm_service self) (documents_text ''Document'' filtered_chunks) of
               Inl e \<Rightarrow> Inl e
             | Inr themes_data \<Rightarrow>
            (case organize_themes Inr filtered_chunks themes_data ([], []) of
               Inl e \<Rightarrow> Inl e
             | Inr (supporting, detailed) \<Rightarrow>
                 theme_response (map theme_name themes_data) supporting detailed
                   [(''query'', PStr query), (''filters'', filters_value filters),
                    (''total_results'', PInt (int (length filtered_chunks)))]))))"

definition extract_themes_for_document :: "QueryEngine \<Rightarrow> string \<Rightarrow> error + ThemeResponse" where
  "extract_themes_for_document self document_id =
     (let chunks = get_chunks_by_document_id (vector_store self) document_id in
      if chunks = [] then
        theme_response [] [] []
          [(''document_id'', PStr document_id), (''total_results'', PInt 0)]
      else
        (case LLMService.extract_themes (llm_service self) (documents_text ''Chunk'' chunks) of
           Inl e \<Rightarrow> Inl e
         | Inr themes_data \<Rightarrow>
        (case organize_document_themes chunks themes_data [] of
           Inl e \<Rightarrow> Inl e
         | Inr detailed \<Rightarrow>
             theme_response (map theme_name themes_data)
               (foldl (\<lambda>acc name. AList.update name [PStr document_id] acc) []
                  (map theme_name themes_data))
               detailed
               [(''document_id'', PStr document_id),
                (''total_results'', PInt (int (length chunks)))])))"

definition extract_all_themes ::
  "(pyval list \<Rightarrow> pyval list) \<Rightarrow> QueryEngine \<Rightarrow> error + ThemeResponse" where
  "extract_all_themes iteration_order self =
     (let all_docs = list_all_documents (vector_store self) in
      if all_docs = [] then
        theme_response [] [] [] [(''total_results'', PInt 0)]
      else
        let sample_chunks =
          concat (map (\<lambda>doc_id. take 2 (get_chunks_by_document_id (vector_store self) doc_id))
                      (take 10 (map fst all_docs)))
        in
        if sample_chunks = [] then
          theme_response [] [] [] [(''total_results'', PInt 0)]
        else
          (case LLMService.extract_themes (llm_service self) (documents_text ''Document'' sample_chunks) of
             Inl e \<Rightarrow> Inl e
           | Inr themes_data \<Rightarrow>
          (case organize_themes (list_of_set iteration_order) sample_chunks themes_data ([], []) of
             Inl e \<Rightarrow> Inl e
           | Inr (supporting, detailed) \<Rightarrow>
               theme_response (map theme_name themes_data) supporting detailed
                 [(''total_documents'', PInt (int (length all_docs))),
                  (''total_results'', PInt (int (length sample_chunks)))])))"

subsection \<open>Pagination of \<^verbatim>\<open>search_documents\<close>\<close>


text \<open>
  The result dictionary, without \<^verbatim>\<open>filters_applied\<close>, which the filter stage fills.
\<close>

record 'a DocumentSearchResult =
  documents :: "'a list"
  total_count :: int
  page_count :: int
  current_page :: int
  page_size :: int


section \<open>Notions used in the statements\<close>

text \<open>A value that orders as a date or is absent: a string or \<^verbatim>\<open>None\<close>.\<close>

definition date_typed :: "pyval \<Rightarrow> bool" where
  "date_typed v = (case v of PNone \<Rightarrow> True | PStr s \<Rightarrow> True | _ \<Rightarrow> False)"

text \<open>
  A passage whose \<^verbatim>\<open>position\<close> metadata is absent or a dictionary, as the indexer
  writes it.
\<close>

definition position_ok :: "DocumentChunk \<Rightarrow> bool" where
  "position_ok chunk =
     (case map_of (metadata chunk) ''position'' of None \<Rightarrow> True | Some v \<Rightarrow> dict_of v \<noteq> None)"

subsection \<open>Sample data\<close>

definition passage_a :: DocumentChunk where
  "passage_a =
     \<lparr>content = ''Refunds are issued within 30 days.'',
      metadata = [(''doc_id'', PStr ''doc-B''), (''filename'', PStr ''policy_2021-03-04.pdf''),
                  (''page_number'', PInt 1), (''paragraph_number'', PInt 0),
                  (''position'', PDict [(''page'', PInt 1),
                                        (''rect'', PList [PFloat 10, PFloat 20, PFloat 300, PFloat 40])]),
                  (''author'', PNone), (''document_date'', PStr ''2021-03-04''),
                  (''document_type'', PStr ''pdf'')],
      similarity_score = 3 / 10\<rparr>"

definition passage_b :: DocumentChunk where
  "passage_b =
     \<lparr>content = ''Contact support to open a refund request.'',
      metadata = [(''doc_id'', PStr ''doc-B''), (''filename'', PStr ''notes.pdf''),
                  (''page_number'', PInt 2), (''document_date'', PNone)],
      similarity_score = 1 / 2\<rparr>"

definition passage_c :: DocumentChunk where
  "passage_c =
     \<lparr>content = ''Store credit is offered after 30 days.'',
      metadata = [(''doc_id'', PStr ''doc-C''), (''document_date'', PStr ''2019-12-31'')],
      similarity_score = 7 / 10\<rparr>"

definition date_window :: "(string \<times> pyval) list" where
  "date_window = [(''start'', PStr ''2020-01-01''), (''end'', PStr ''2021-12-31'')]"

definition scored_a :: "nat VectorResult" where
  "scored_a = \<lparr>result_id = 17, score = 3 / 10\<rparr>"

text \<open>
  An engine whose retriever answers every query with the given results and whose
  generative collaborator answers with the given theme descriptors.
\<close>

definition sample_engine :: "raw_result list \<Rightarrow> ThemeData list \<Rightarrow> QueryEngine" where
  "sample_engine results themes_data =
     \<lparr>vector_store =
        \<lparr>similarity_search = (\<lambda>query k. Inr results),
         get_chunks_by_document_id =
           (\<lambda>document_id. if document_id = ''doc-B'' then [passage_a, passage_b] else []),
         list_all_documents = [(''doc-B'', PDict [(''filename'', PStr ''notes.pdf'')])]\<rparr>,
      llm_service =
        \<lparr>answer_query = (\<lambda>query context. Inr ''Refunds are issued within 30 days.''),
         extract_themes = (\<lambda>text. Inr themes_data)\<rparr>\<rparr>"


section \<open>Properties of the document filter\<close>

lemma filtered_chunks_of_subseq:
  "filtered_chunks_of chunks f = Inr R \<Longrightarrow> subseq R chunks"
proof (induction chunks arbitrary: R)
  case Nil
  then show ?case by simp
next
  case (Cons c cs)
  then show ?case
    by (auto split: sum.splits if_splits)
qed

lemma py_cmp_date_typed:
  "date_typed a \<Longrightarrow> truthy a \<Longrightarrow> date_typed b \<Longrightarrow> truthy b \<Longrightarrow> \<exists>r. py_cmp opr a b = Inr r"
  by (cases a; cases b; cases opr) (simp_all add: date_typed_def)

lemma check_date_range_total:
  assumes "date_typed (dict_get (metadata chunk) ''document_date'')"
    and "date_typed (dict_get dr ''start'')" and "date_typed (dict_get dr ''end'')"
  shows "\<exists>r. check_date_range chunk dr = Inr r"
  using assms
    py_cmp_date_typed[of "dict_get (metadata chunk) ''document_date''" "dict_get dr ''start''" Lt]
    py_cmp_date_typed[of "dict_get (metadata chunk) ''document_date''" "dict_get dr ''end''" Gt]
  by (auto simp: check_date_range_def Let_def split: sum.splits bool.splits)

text \<open>Only the date comparison can raise inside the filter.\<close>

lemma filter_item_error:
  "filter_item chunk key val = Inl e \<Longrightarrow>
     \<exists>dr. key = ''date_range'' \<and> val = PDict dr \<and> check_date_range chunk dr = Inl e"
  by (cases val) (auto simp: filter_item_def split: option.splits if_splits)

lemma should_include_chunk_total:
  assumes "date_typed (dict_get (metadata chunk) ''document_date'')"
    and "\<And>dr. (''date_range'', PDict dr) \<in> set f \<Longrightarrow>
           date_typed (dict_get dr ''start'') \<and> date_typed (dict_get dr ''end'')"
  shows "\<exists>r. should_include_chunk chunk f = Inr r"
  using assms(2)
proof (induction f)
  case Nil
  show ?case by (simp add: exI[of _ True])
next
  case (Cons kv f)
  obtain key val where kv: "kv = (key, val)" by (cases kv)
  have ih: "\<exists>r. should_include_chunk chunk f = Inr r"
    using Cons by auto
  have "\<exists>r. filter_item chunk key val = Inr r"
  proof (cases "filter_item chunk key val")
    case (Inl e)
    then obtain dr where dr: "key = ''date_range''" "val = PDict dr"
        "check_date_range chunk dr = Inl e"
      using filter_item_error by blast
    then have "date_typed (dict_get dr ''start'') \<and> date_typed (dict_get dr ''end'')"
      using Cons.prems[of dr] kv by simp
    then show ?thesis
      using check_date_range_total[OF assms(1), of dr] dr by auto
  next
    case (Inr r)
    then show ?thesis by simp
  qed
  then show ?case
    using ih kv by (auto split: sum.splits bool.splits)
qed

lemma filtered_chunks_of_total:
  assumes "\<And>c. c \<in> set chunks \<Longrightarrow> \<exists>r. should_include_chunk c f = Inr r"
  shows "\<exists>R. filtered_chunks_of chunks f = Inr R"
  using assms
proof (induction chunks)
  case Nil
  then show ?case by simp
next
  case (Cons c cs)
  then obtain r R where "should_include_chunk c f = Inr r" "filtered_chunks_of cs f = Inr R"
    by (meson list.set_intros)
  then show ?case by simp
qed

text \<open>A passage that survives has passed every item of the specification.\<close>

lemma should_include_chunk_item:
  "should_include_chunk chunk f = Inr True \<Longrightarrow> (key, val) \<in> set f \<Longrightarrow>
   filter_item chunk key val = Inr True"
proof (induction f)
  case Nil
  then show ?case by simp
next
  case (Cons kv f)
  obtain k v where kv: "kv = (k, v)" by (cases kv)
  from Cons.prems(1) kv have head: "filter_item chunk k v = Inr True"
    and tail: "should_include_chunk chunk f = Inr True"
    by (auto split: sum.splits bool.splits)
  from Cons.prems(2) kv consider "(key, val) = (k, v)" | "(key, val) \<in> set f" by auto
  then show ?case
  proof cases
    case 1
    with head show ?thesis by simp
  next
    case 2
    with tail Cons.IH show ?thesis by simp
  qed
qed

lemma filtered_chunks_of_member:
  "filtered_chunks_of chunks f = Inr R \<Longrightarrow> c \<in> set R \<Longrightarrow> should_include_chunk c f = Inr True"
proof (induction chunks arbitrary: R)
  case Nil
  then show ?case by simp
next
  case (Cons x xs)
  then show ?case
    by (auto split: sum.splits if_splits)
qed

lemma filter_item_threshold:
  "num_of t = Some r \<Longrightarrow>
   filter_item chunk ''relevance_threshold'' t = Inr (r \<le> similarity_score chunk)"
  by (simp add: filter_item_def not_less)

lemma filtered_chunks_of_threshold:
  "num_of t = Some r \<Longrightarrow>
   filtered_chunks_of P [(''relevance_threshold'', t)] =
     Inr (filter (\<lambda>c. r \<le> similarity_score c) P)"
  by (induction P) (simp_all add: filter_item_threshold)

lemma apply_filters_threshold_bound:
  assumes "(''relevance_threshold'', t) \<in> set f" and "num_of t = Some r"
    and "apply_filters P (Some f) = Inr R" and "c \<in> set R"
  shows "r \<le> similarity_score c"
proof -
  from assms(1) have "f \<noteq> []" by auto
  with assms(3) have "filtered_chunks_of P f = Inr R"
    by (simp add: apply_filters_def)
  then have "should_include_chunk c f = Inr True"
    using assms(4) by (rule filtered_chunks_of_member)
  then have "filter_item c ''relevance_threshold'' t = Inr True"
    using assms(1) by (rule should_include_chunk_item)
  with assms(2) show ?thesis
    by (simp add: filter_item_threshold)
qed

lemma check_date_range_missing:
  "\<not> truthy (dict_get (metadata c) ''document_date'') \<Longrightarrow> check_date_range c dr = Inr True"
  by (simp add: check_date_range_def)

lemma check_date_range_string:
  assumes "dict_get (metadata c) ''document_date'' = PStr d" and "d \<noteq> []"
    and "date_typed (dict_get dr ''start'')" and "date_typed (dict_get dr ''end'')"
  shows "check_date_range c dr =
           Inr ((\<forall>s. dict_get dr ''start'' = PStr s \<and> s \<noteq> [] \<longrightarrow> s \<le> d) \<and>
                (\<forall>e. dict_get dr ''end'' = PStr e \<and> e \<noteq> [] \<longrightarrow> d \<le> e))"
  using assms
  by (cases "dict_get dr ''start''"; cases "dict_get dr ''end''")
     (auto simp: check_date_range_def date_typed_def Let_def not_less split: bool.splits)

lemma apply_filters_date_range_single:
  "apply_filters [c] (Some [(''date_range'', PDict dr)]) =
     (case check_date_range c dr of Inl e \<Rightarrow> Inl e | Inr ok \<Rightarrow> Inr (if ok then [c] else []))"
  by (auto simp: apply_filters_def filter_item_def split: sum.splits bool.splits)

text \<open>
  C1.  Whenever \<^verbatim>\<open>apply_filters\<close> returns, its result is a subsequence of the passage
  list it was given: a subset of the passages in their original relative order.  The
  function is pure, so the input list is what it was.  For an absent or empty filter
  specification the result is the input list itself.  The function returns whenever the
  document dates of the passages and the bounds of every \<^verbatim>\<open>date_range\<close> are strings or
  \<^verbatim>\<open>None\<close>; the comparison of a date with a bound of another type is the only thing in
  the filter that can raise.
\<close>

theorem apply_filters_subseq_identity:
  "(\<forall>R. apply_filters P f = Inr R \<longrightarrow> subseq R P) \<and>
   (f = None \<or> f = Some [] \<longrightarrow> apply_filters P f = Inr P) \<and>
   ((\<forall>c \<in> set P. date_typed (dict_get (metadata c) ''document_date'')) \<and>
    (\<forall>g dr. f = Some g \<and> (''date_range'', PDict dr) \<in> set g \<longrightarrow>
        date_typed (dict_get dr ''start'') \<and> date_typed (dict_get dr ''end''))
    \<longrightarrow> (\<exists>R. apply_filters P f = Inr R))"
proof (intro conjI allI impI)
  fix R assume "apply_filters P f = Inr R"
  then show "subseq R P"
    by (auto simp: apply_filters_def filtered_chunks_of_subseq split: option.splits if_splits)
next
  assume "f = None \<or> f = Some []"
  then show "apply_filters P f = Inr P"
    by (auto simp: apply_filters_def)
next
  assume a: "(\<forall>c \<in> set P. date_typed (dict_get (metadata c) ''document_date'')) \<and>
    (\<forall>g dr. f = Some g \<and> (''date_range'', PDict dr) \<in> set g \<longrightarrow>
        date_typed (dict_get dr ''start'') \<and> date_typed (dict_get dr ''end''))"
  show "\<exists>R. apply_filters P f = Inr R"
  proof (cases f)
    case None
    then show ?thesis by (simp add: apply_filters_def)
  next
    case (Some g)
    have "\<And>c. c \<in> set P \<Longrightarrow> \<exists>r. should_include_chunk c g = Inr r"
      using a Some by (intro should_include_chunk_total) auto
    then show ?thesis
      using Some filtered_chunks_of_total[of P g] by (simp add: apply_filters_def)
  qed
qed

theorem apply_filters_subseq_identity_witness:
  "apply_filters [passage_a, passage_b, passage_c]
     (Some [(''date_range'', PDict date_window), (''doc_id'', PList [PStr ''doc-B''])])
     = Inr [passage_a, passage_b] \<and>
   subseq [passage_a, passage_b] [passage_a, passage_b, passage_c] \<and>
   apply_filters [passage_a, passage_b, passage_c] (Some [])
     = Inr [passage_a, passage_b, passage_c] \<and>
   apply_filters [passage_a, passage_b, passage_c] None
     = Inr [passage_a, passage_b, passage_c]"
proof -
  have run: "apply_filters [passage_a, passage_b, passage_c]
      (Some [(''date_range'', PDict date_window), (''doc_id'', PList [PStr ''doc-B''])])
      = Inr [passage_a, passage_b]"
    by (simp add: apply_filters_def filter_item_def check_date_range_def dict_get_def
        check_metadata_filter_def py_in_def passage_a_def passage_b_def passage_c_def
        date_window_def)
  show ?thesis
    using run
      apply_filters_subseq_identity[of "[passage_a, passage_b, passage_c]"
        "Some [(''date_range'', PDict date_window), (''doc_id'', PList [PStr ''doc-B''])]"]
      apply_filters_subseq_identity[of "[passage_a, passage_b, passage_c]" "Some []"]
      apply_filters_subseq_identity[of "[passage_a, passage_b, passage_c]" None]
    by simp
qed

text \<open>
  C5.  Under a filter specification that holds the key \<^verbatim>\<open>relevance_threshold\<close> alone,
  with a number \<open>t\<close>, the result is exactly the passages whose similarity score is at
  least \<open>t\<close>, in order; a passage whose score equals \<open>t\<close> is kept.  Under any
  specification that holds the key with a number, every passage of the result has a
  score of at least \<open>t\<close>.
\<close>

theorem relevance_threshold_inclusive:
  assumes "num_of t = Some r"
  shows "apply_filters P (Some [(''relevance_threshold'', t)]) =
           Inr (filter (\<lambda>c. r \<le> similarity_score c) P) \<and>
         (\<forall>f R. (''relevance_threshold'', t) \<in> set f \<and> apply_filters P (Some f) = Inr R
            \<longrightarrow> (\<forall>c \<in> set R. r \<le> similarity_score c))"
proof (intro conjI allI impI ballI)
  show "apply_filters P (Some [(''relevance_threshold'', t)]) =
           Inr (filter (\<lambda>c. r \<le> similarity_score c) P)"
    using assms by (simp add: apply_filters_def filtered_chunks_of_threshold)
next
  fix f R c
  assume "(''relevance_threshold'', t) \<in> set f \<and> apply_filters P (Some f) = Inr R"
    and "c \<in> set R"
  then show "r \<le> similarity_score c"
    using assms apply_filters_threshold_bound by blast
qed

theorem relevance_threshold_inclusive_witness:
  "num_of (PFloat (1 / 2)) = Some (1 / 2) \<and>
   apply_filters [passage_a, passage_b, passage_c] (Some [(''relevance_threshold'', PFloat (1 / 2))])
     = Inr [passage_b, passage_c] \<and>
   similarity_score passage_b = 1 / 2"
proof -
  have h: "num_of (PFloat (1 / 2)) = Some (1 / 2)" by simp
  show ?thesis
    using h relevance_threshold_inclusive[OF h, of "[passage_a, passage_b, passage_c]"]
    by (simp add: passage_a_def passage_b_def passage_c_def)
qed

text \<open>
  C7.  Under a \<^verbatim>\<open>date_range\<close> filter, a passage whose \<^verbatim>\<open>document_date\<close> is missing (the
  key is absent, or its value is \<^verbatim>\<open>None\<close> or empty: the code tests \<^verbatim>\<open>not doc_date\<close>)
  passes the date predicate.  A passage whose \<^verbatim>\<open>document_date\<close> is a non-empty string
  \<open>d\<close> passes exactly when \<open>d\<close> is at least the start bound, when one is given, and at
  most the end bound, when one is given, in the lexicographic order of strings; a bound
  is given when it is a non-empty string, and not given when it is absent, \<^verbatim>\<open>None\<close> or
  empty.  With \<^verbatim>\<open>date_range\<close> as the only key of the specification, the passage is kept
  exactly when the predicate holds.
\<close>

theorem date_range_predicate:
  "(\<not> truthy (dict_get (metadata c) ''document_date'') \<longrightarrow> check_date_range c dr = Inr True) \<and>
   (dict_get (metadata c) ''document_date'' = PStr d \<and> d \<noteq> [] \<and>
    date_typed (dict_get dr ''start'') \<and> date_typed (dict_get dr ''end'') \<longrightarrow>
      check_date_range c dr =
        Inr ((\<forall>s. dict_get dr ''start'' = PStr s \<and> s \<noteq> [] \<longrightarrow> s \<le> d) \<and>
             (\<forall>e. dict_get dr ''end'' = PStr e \<and> e \<noteq> [] \<longrightarrow> d \<le> e))) \<and>
   apply_filters [c] (Some [(''date_range'', PDict dr)]) =
     (case check_date_range c dr of Inl e \<Rightarrow> Inl e | Inr ok \<Rightarrow> Inr (if ok then [c] else []))"
  using check_date_range_missing[of c dr] check_date_range_string[of c d dr]
    apply_filters_date_range_single[of c dr]
  by blast

theorem date_range_predicate_witness:
  "check_date_range passage_b date_window = Inr True \<and>
   check_date_range passage_a date_window = Inr True \<and>
   check_date_range passage_c date_window = Inr False \<and>
   check_date_range passage_c [(''end'', PStr ''2021-12-31'')] = Inr True \<and>
   apply_filters [passage_c] (Some [(''date_range'', PDict date_window)]) = Inr [] \<and>
   apply_filters [passage_b] (Some [(''date_range'', PDict date_window)]) = Inr [passage_b]"
  using date_range_predicate[of passage_b date_window]
    date_range_predicate[of passage_a date_window "''2021-03-04''"]
    date_range_predicate[of passage_c date_window "''2019-12-31''"]
    date_range_predicate[of passage_c "[(''end'', PStr ''2021-12-31'')]" "''2019-12-31''"]
  by (simp add: dict_get_def date_typed_def passage_a_def passage_b_def passage_c_def
      date_window_def)

section \<open>Properties of the citation builder\<close>

lemma basic_citation_total: "position_ok chunk \<Longrightarrow> \<exists>cit. basic_citation chunk = Inr cit"
  by (auto simp: position_ok_def basic_citation_def position_rect_of_def split: option.splits)

lemma basic_citation_snippet:
  "basic_citation chunk = Inr cit \<Longrightarrow> content_snippet cit = create_snippet (content chunk)"
  by (auto simp: basic_citation_def split: sum.splits)

lemma create_basic_citations_all2:
  "create_basic_citations chunks = Inr cs \<Longrightarrow>
   list_all2 (\<lambda>chunk cit. basic_citation chunk = Inr cit) chunks cs"
proof (induction chunks arbitrary: cs)
  case Nil
  then show ?case by simp
next
  case (Cons c chunks)
  then show ?case by (auto split: sum.splits)
qed

lemma create_basic_citations_total:
  "\<forall>c \<in> set chunks. position_ok c \<Longrightarrow> \<exists>cs. create_basic_citations chunks = Inr cs"
proof (induction chunks)
  case Nil
  then show ?case by simp
next
  case (Cons c chunks)
  then obtain cit cs where "basic_citation c = Inr cit" "create_basic_citations chunks = Inr cs"
    using basic_citation_total[of c] by auto
  then show ?case by simp
qed

lemma create_basic_citations_single:
  "create_basic_citations [chunk] = Inr [cit] \<longleftrightarrow> basic_citation chunk = Inr cit"
  by (auto split: sum.splits)

text \<open>
  C6.  The snippet of a content of at most 200 characters is the content; the snippet
  of a longer content is its first 200 characters followed by \<^verbatim>\<open>...\<close>.  When
  \<^verbatim>\<open>create_basic_citations\<close> returns, it has one citation for each passage, in order:
  the citation at each position is the one the builder makes of the passage at that
  position alone, and its snippet is the snippet of that passage's content.  It returns
  whenever the \<^verbatim>\<open>position\<close> metadata of every passage is absent or a dictionary.
\<close>

theorem citation_snippet_and_order:
  "(length text \<le> 200 \<longrightarrow> create_snippet text = text) \<and>
   (length text > 200 \<longrightarrow> create_snippet text = take 200 text @ ''...'') \<and>
   (\<forall>cs. create_basic_citations chunks = Inr cs \<longrightarrow>
      length cs = length chunks \<and>
      (\<forall>i < length chunks.
         create_basic_citations [chunks ! i] = Inr [cs ! i] \<and>
         content_snippet (cs ! i) = create_snippet (content (chunks ! i)))) \<and>
   ((\<forall>c \<in> set chunks. position_ok c) \<longrightarrow> (\<exists>cs. create_basic_citations chunks = Inr cs))"
proof (intro conjI allI impI)
  fix cs assume a: "create_basic_citations chunks = Inr cs"
  then have all2: "list_all2 (\<lambda>chunk cit. basic_citation chunk = Inr cit) chunks cs"
    by (rule create_basic_citations_all2)
  then show "length cs = length chunks"
    by (simp add: list_all2_lengthD)
  fix i assume "i < length chunks"
  then have nth: "basic_citation (chunks ! i) = Inr (cs ! i)"
    using list_all2_nthD[OF all2, of i] by simp
  then show "create_basic_citations [chunks ! i] = Inr [cs ! i]"
    by simp
  from nth show "content_snippet (cs ! i) = create_snippet (content (chunks ! i))"
    by (rule basic_citation_snippet)
qed (simp_all add: create_snippet_def create_basic_citations_total)

lemma enhanced_citation_basic:
  "enhanced_citation chunk info = Inr ec \<Longrightarrow>
   basic_citation chunk = Inr (Citation.truncate ec) \<and> embedding_info ec = info"
  by (auto simp: enhanced_citation_def basic_citation_def Citation.truncate_def split: sum.splits)

lemma enhanced_citation_total:
  "basic_citation chunk = Inr cit \<Longrightarrow> \<exists>ec. enhanced_citation chunk info = Inr ec"
  by (auto simp: enhanced_citation_def basic_citation_def split: sum.splits)

lemma enhanced_citations_from_spec:
  "enhanced_citations_from str i chunks vrs = Inr ecs \<Longrightarrow>
   create_basic_citations chunks = Inr (map Citation.truncate ecs) \<and>
   length ecs = length chunks \<and>
   (\<forall>j < length chunks.
      embedding_info (ecs ! j) =
        (if i + j < length vrs then
           Some \<lparr>vector_id = str (result_id (vrs ! (i + j))),
                 similarity_score = score (vrs ! (i + j)),
                 dimension = 768,
                 model_name = ''embedding-model''\<rparr>
         else None))"
proof (induction chunks arbitrary: i ecs)
  case Nil
  then show ?case by simp
next
  case (Cons c chunks)
  from Cons.prems obtain ec rest where
    ec: "enhanced_citation c (if i < length vrs then
           Some \<lparr>vector_id = str (result_id (vrs ! i)),
                 similarity_score = score (vrs ! i),
                 dimension = 768,
                 model_name = ''embedding-model''\<rparr>
         else None) = Inr ec"
    and rest: "enhanced_citations_from str (Suc i) chunks vrs = Inr rest"
    and ecs: "ecs = ec # rest"
    by (auto simp: Let_def split: sum.splits)
  note ih = Cons.IH[OF rest]
  note hd = enhanced_citation_basic[OF ec]
  have "create_basic_citations (c # chunks) = Inr (map Citation.truncate ecs)"
    using ih hd ecs by simp
  moreover have "length ecs = length (c # chunks)"
    using ih ecs by simp
  moreover have "\<forall>j < length (c # chunks).
      embedding_info (ecs ! j) =
        (if i + j < length vrs then
           Some \<lparr>vector_id = str (result_id (vrs ! (i + j))),
                 similarity_score = score (vrs ! (i + j)),
                 dimension = 768,
                 model_name = ''embedding-model''\<rparr>
         else None)"
  proof (intro allI impI)
    fix j assume j: "j < length (c # chunks)"
    show "embedding_info (ecs ! j) =
        (if i + j < length vrs then
           Some \<lparr>vector_id = str (result_id (vrs ! (i + j))),
                 similarity_score = score (vrs ! (i + j)),
                 dimension = 768,
                 model_name = ''embedding-model''\<rparr>
         else None)"
    proof (cases j)
      case 0
      then show ?thesis using hd ecs by simp
    next
      case (Suc k)
      then have "k < length chunks" using j by simp
      then show ?thesis using ih ecs Suc by simp
    qed
  qed
  ultimately show ?case by blast
qed

lemma enhanced_citations_from_total:
  "create_basic_citations chunks = Inr cs \<Longrightarrow> \<exists>ecs. enhanced_citations_from str i chunks vrs = Inr ecs"
proof (induction chunks arbitrary: i cs)
  case Nil
  then show ?case by simp
next
  case (Cons c chunks)
  from Cons.prems obtain cit rest where c: "basic_citation c = Inr cit"
    and r: "create_basic_citations chunks = Inr rest"
    by (auto split: sum.splits)
  from Cons.IH[OF r, of "Suc i"] obtain ecs where
    "enhanced_citations_from str (Suc i) chunks vrs = Inr ecs" by blast
  moreover from enhanced_citation_total[OF c] obtain ec where
    "enhanced_citation c (if i < length vrs then
           Some \<lparr>vector_id = str (result_id (vrs ! i)),
                 similarity_score = score (vrs ! i),
                 dimension = 768,
                 model_name = ''embedding-model''\<rparr>
         else None) = Inr ec" by blast
  ultimately show ?case by (simp add: Let_def)
qed

theorem citation_snippet_and_order_witness:
  "create_snippet ''short'' = ''short'' \<and>
   create_snippet (replicate 200 CHR ''x'') = replicate 200 CHR ''x'' \<and>
   create_snippet (replicate 200 CHR ''x'' @ ''y'') = replicate 200 CHR ''x'' @ ''...'' \<and>
   (\<exists>ca cb. create_basic_citations [passage_a, passage_b] = Inr [ca, cb] \<and>
      create_basic_citations [passage_a] = Inr [ca] \<and>
      create_basic_citations [passage_b] = Inr [cb] \<and>
      content_snippet ca = ''Refunds are issued within 30 days.'' \<and>
      content_snippet cb = ''Contact support to open a refund request.'')"
proof -
  have ok: "\<forall>c \<in> set [passage_a, passage_b]. position_ok c"
    by (simp add: position_ok_def passage_a_def passage_b_def)
  note t = citation_snippet_and_order[of _ "[passage_a, passage_b]"]
  from t[of "[]"] ok obtain cs where cs: "create_basic_citations [passage_a, passage_b] = Inr cs"
    by blast
  with t[of "[]"] have len: "length cs = 2" and
    nth: "\<forall>i < 2. create_basic_citations [[passage_a, passage_b] ! i] = Inr [cs ! i] \<and>
         content_snippet (cs ! i) = create_snippet (content ([passage_a, passage_b] ! i))"
    by auto
  from len obtain ca cb where cab: "cs = [ca, cb]"
    by (auto simp: length_Suc_conv numeral_2_eq_2)
  from nth have n0: "create_basic_citations [passage_a] = Inr [cs ! 0] \<and>
         content_snippet (cs ! 0) = create_snippet (content passage_a)"
    by (auto dest: spec[of _ 0])
  from nth have n1: "create_basic_citations [passage_b] = Inr [cs ! 1] \<and>
         content_snippet (cs ! 1) = create_snippet (content passage_b)"
    by (auto dest: spec[of _ 1])
  have sa: "create_snippet (content passage_a) = ''Refunds are issued within 30 days.''"
    by (simp add: create_snippet_def passage_a_def)
  have sb: "create_snippet (content passage_b) = ''Contact support to open a refund request.''"
    by (simp add: create_snippet_def passage_b_def)
  have s1: "create_snippet ''short'' = ''short''"
    using t[of "''short''"] by simp
  have s2: "create_snippet (replicate 200 CHR ''x'') = replicate 200 CHR ''x''"
    using t[of "replicate 200 CHR ''x''"] by simp
  have s3: "create_snippet (replicate 200 CHR ''x'' @ ''y'') = replicate 200 CHR ''x'' @ ''...''"
    using t[of "replicate 200 CHR ''x'' @ ''y''"] by simp
  from cs cab n0 n1 sa sb s1 s2 s3 show ?thesis by simp
qed

text \<open>
  C8.  When \<^verbatim>\<open>create_enhanced_citations\<close> returns, it has one enhanced citation for
  each passage, in order; cut down to the base fields they are the citations that
  \<^verbatim>\<open>create_basic_citations\<close> returns for the same passages; the citation at position
  \<open>i\<close> carries the embedding provenance read from \<^verbatim>\<open>vector_results[i]\<close> when \<open>i\<close> is
  less than the length of the scored results, and none otherwise.  It returns whenever
  \<^verbatim>\<open>create_basic_citations\<close> does.
\<close>

theorem enhanced_citations_positional:
  "(\<forall>ecs. create_enhanced_citations str chunks vrs = Inr ecs \<longrightarrow>
      create_basic_citations chunks = Inr (map Citation.truncate ecs) \<and>
      length ecs = length chunks \<and>
      (\<forall>i < length chunks.
         embedding_info (ecs ! i) =
           (if i < length vrs then
              Some \<lparr>vector_id = str (result_id (vrs ! i)),
                    similarity_score = score (vrs ! i),
                    dimension = 768,
                    model_name = ''embedding-model''\<rparr>
            else None))) \<and>
   ((\<exists>cs. create_basic_citations chunks = Inr cs) \<longrightarrow>
      (\<exists>ecs. create_enhanced_citations str chunks vrs = Inr ecs))"
proof (intro conjI allI impI)
  fix ecs assume "create_enhanced_citations str chunks vrs = Inr ecs"
  then have "enhanced_citations_from str 0 chunks vrs = Inr ecs"
    by (simp add: create_enhanced_citations_def)
  note facts = enhanced_citations_from_spec[OF this]
  from facts show "create_basic_citations chunks = Inr (map Citation.truncate ecs)"
    by simp
  from facts show "length ecs = length chunks"
    by simp
  fix i assume "i < length chunks"
  with facts show "embedding_info (ecs ! i) =
           (if i < length vrs then
              Some \<lparr>vector_id = str (result_id (vrs ! i)),
                    similarity_score = score (vrs ! i),
                    dimension = 768,
                    model_name = ''embedding-model''\<rparr>
            else None)"
    by simp
next
  assume "\<exists>cs. create_basic_citations chunks = Inr cs"
  then show "\<exists>ecs. create_enhanced_citations str chunks vrs = Inr ecs"
    using enhanced_citations_from_total[of chunks _ str 0 vrs]
    by (auto simp: create_enhanced_citations_def)
qed

theorem enhanced_citations_positional_witness:
  "\<exists>ea eb. create_enhanced_citations str_of_nat [passage_a, passage_b] [scored_a] = Inr [ea, eb] \<and>
     create_basic_citations [passage_a, passage_b] = Inr [Citation.truncate ea, Citation.truncate eb] \<and>
     embedding_info ea = Some \<lparr>vector_id = ''17'', similarity_score = 3 / 10, dimension = 768,
                               model_name = ''embedding-model''\<rparr> \<and>
     embedding_info eb = None"
proof -
  note t = enhanced_citations_positional[of str_of_nat "[passage_a, passage_b]" "[scored_a]"]
  have "\<exists>cs. create_basic_citations [passage_a, passage_b] = Inr cs"
    by (simp add: basic_citation_def position_rect_of_def passage_a_def passage_b_def)
  with t obtain ecs where
    ecs: "create_enhanced_citations str_of_nat [passage_a, passage_b] [scored_a] = Inr ecs"
    by blast
  with t have basic: "create_basic_citations [passage_a, passage_b] = Inr (map Citation.truncate ecs)"
    and len: "length ecs = 2"
    and nth: "\<forall>i < 2. embedding_info (ecs ! i) =
           (if i < length [scored_a] then
              Some \<lparr>vector_id = str_of_nat (result_id ([scored_a] ! i)),
                    similarity_score = score ([scored_a] ! i),
                    dimension = 768,
                    model_name = ''embedding-model''\<rparr>
            else None)"
    by auto
  from len obtain ea eb where ab: "ecs = [ea, eb]"
    by (auto simp: length_Suc_conv numeral_2_eq_2)
  have id17: "str_of_nat 17 = ''17''"
    by (simp add: str_of_nat.simps)
  from nth ab have "embedding_info ea = Some \<lparr>vector_id = ''17'', similarity_score = 3 / 10,
      dimension = 768, model_name = ''embedding-model''\<rparr>"
    by (auto dest!: spec[of _ 0] simp: scored_a_def id17)
  moreover from nth ab have "embedding_info eb = None"
    by (auto dest!: spec[of _ 1])
  ultimately show ?thesis using ecs basic ab by simp
qed

section \<open>Properties of the pagination\<close>
















section \<open>Properties of the query engine\<close>

text \<open>
  C2.  When the retriever has answered and the passages that survive the restriction to
  the selected documents and the filter are none, \<^verbatim>\<open>process_query\<close> returns a response
  (it does not raise) whose only answer is the fixed message
  \<^verbatim>\<open>No relevant documents found matching the criteria.\<close>, followed by
  \<^verbatim>\<open> Search was limited to N selected documents.\<close> when an allow-list was given, \<open>N\<close>
  being its size; its citation list is empty and its metadata holds \<^verbatim>\<open>total_results\<close>
  with the value 0.  An allow-list counts as given when it is a non-empty list: the code
  tests \<^verbatim>\<open>if selected_document_ids\<close>, under which an empty list is as \<^verbatim>\<open>None\<close>, both for
  the restriction and for the message.
\<close>

theorem process_query_empty_result:
  assumes "similarity_search (vector_store self) query 10 = Inr raw_results"
    and "apply_filters (filter_selected selected_document_ids
           (convert_to_document_chunks raw_results)) filters = Inr []"
  shows "\<exists>md. process_query self query filters selected_document_ids =
           Inr \<lparr>QueryResponse.answers =
                  [''No relevant documents found matching the criteria.'' @
                   (case selected_document_ids of
                      None \<Rightarrow> []
                    | Some ids \<Rightarrow>
                        if ids \<noteq> [] then
                          '' Search was limited to '' @ str_of_nat (length ids) @
                          '' selected documents.''
                        else [])],
                 QueryResponse.citations = [],
                 QueryResponse.metadata = md\<rparr> \<and>
         map_of md ''total_results'' = Some (PInt 0)"
  using assms
  by (simp add: process_query_def no_results_message_def split: option.splits)

theorem process_query_empty_result_witness:
  "similarity_search (vector_store (sample_engine [ConvertedChunk passage_a, ConvertedChunk passage_b] []))
     ''refund policy'' 10 = Inr [ConvertedChunk passage_a, ConvertedChunk passage_b] \<and>
   apply_filters (filter_selected (Some [''doc-A''])
      (convert_to_document_chunks [ConvertedChunk passage_a, ConvertedChunk passage_b])) None = Inr [] \<and>
   (\<exists>md. process_query (sample_engine [ConvertedChunk passage_a, ConvertedChunk passage_b] [])
           ''refund policy'' None (Some [''doc-A'']) =
      Inr \<lparr>QueryResponse.answers =
             [''No relevant documents found matching the criteria. Search was limited to 1 selected documents.''],
           QueryResponse.citations = [],
           QueryResponse.metadata = md\<rparr> \<and>
      map_of md ''total_results'' = Some (PInt 0))"
proof -
  have s: "similarity_search (vector_store (sample_engine [ConvertedChunk passage_a, ConvertedChunk passage_b] []))
     ''refund policy'' 10 = Inr [ConvertedChunk passage_a, ConvertedChunk passage_b]"
    by (simp add: sample_engine_def)
  have f: "apply_filters (filter_selected (Some [''doc-A''])
      (convert_to_document_chunks [ConvertedChunk passage_a, ConvertedChunk passage_b])) None = Inr []"
    by (simp add: apply_filters_def filter_selected_def py_in_def dict_get_def
        passage_a_def passage_b_def)
  have n: "str_of_nat (length [''doc-A'']) = ''1''"
    by (simp add: str_of_nat.simps)
  show ?thesis
    using s f process_query_empty_result[OF s f] n by simp
qed






text \<open>
  C10.  Every citation of a response that \<^verbatim>\<open>process_enhanced_query\<close> returns has no
  embedding provenance: the citations are either none or what
  \<^verbatim>\<open>create_enhanced_citations\<close> returns on the surviving passages and the empty list of
  scored results.
\<close>

theorem enhanced_query_no_provenance:
  assumes "process_enhanced_query self query filters selected_document_ids = Inr response"
  shows "(\<forall>c \<in> set (EnhancedQueryResponse.citations response). embedding_info c = None) \<and>
         (EnhancedQueryResponse.citations response = [] \<or>
          (\<exists>chunks. chunks \<noteq> [] \<and>
             create_enhanced_citations (\<lambda>u :: unit. []) chunks [] =
               Inr (EnhancedQueryResponse.citations response)))"
proof -
  have none: "\<forall>c \<in> set cits. embedding_info c = None"
    if "create_enhanced_citations (\<lambda>u :: unit. []) chunks [] = Inr cits" for chunks cits
  proof
    fix c assume "c \<in> set cits"
    then obtain i where i: "i < length cits" "cits ! i = c"
      by (auto simp: in_set_conv_nth)
    from that have "enhanced_citations_from (\<lambda>u :: unit. []) 0 chunks [] = Inr cits"
      by (simp add: create_enhanced_citations_def)
    from enhanced_citations_from_spec[OF this] i show "embedding_info c = None"
      by auto
  qed
  from assms consider
    (empty) "EnhancedQueryResponse.citations response = []"
    | (built) chunks where "chunks \<noteq> []"
        "create_enhanced_citations (\<lambda>u :: unit. []) chunks [] =
           Inr (EnhancedQueryResponse.citations response)"
    by (auto simp: process_enhanced_query_def split: sum.splits if_splits)
  then show ?thesis
  proof cases
    case empty
    then show ?thesis by simp
  next
    case built
    with none[OF built(2)] show ?thesis by blast
  qed
qed

theorem enhanced_query_no_provenance_witness:
  "\<exists>response ea.
     process_enhanced_query (sample_engine [ConvertedChunk passage_a] []) ''refund policy'' None None
       = Inr response \<and>
     EnhancedQueryResponse.citations response = [ea] \<and>
     content_snippet ea = ''Refunds are issued within 30 days.'' \<and>
     embedding_info ea = None"
proof -
  have "\<exists>response ea.
     process_enhanced_query (sample_engine [ConvertedChunk passage_a] []) ''refund policy'' None None
       = Inr response \<and>
     EnhancedQueryResponse.citations response = [ea] \<and>
     content_snippet ea = ''Refunds are issued within 30 days.''"
    by (simp add: process_enhanced_query_def sample_engine_def apply_filters_def
        filter_selected_def create_enhanced_citations_def enhanced_citation_def
        position_rect_of_def create_snippet_def passage_a_def)
  then obtain response ea where
    r: "process_enhanced_query (sample_engine [ConvertedChunk passage_a] []) ''refund policy'' None None
       = Inr response"
    and c: "EnhancedQueryResponse.citations response = [ea]"
    and s: "content_snippet ea = ''Refunds are issued within 30 days.''"
    by blast
  from enhanced_query_no_provenance[OF r] c have "embedding_info ea = None"
    by simp
  with r c s show ?thesis by blast
qed

text \<open>Indices that are not negative resolve as intended: those in range, in order.\<close>

lemma resolve_indices_in_range:
  "\<forall>idx \<in> set doc_indices. 0 \<le> idx \<Longrightarrow>
   resolve_indices chunks doc_indices =
     Inr (map (\<lambda>idx. chunks ! nat idx) (filter (\<lambda>idx. idx < int (length chunks)) doc_indices))"
  by (induction doc_indices) (auto simp: py_index_def)

text \<open>
  C4.  The theme loops guard an index by \<^verbatim>\<open>idx < len(chunks)\<close> only.  An index at or
  above the number of candidates is skipped, but a negative index passes the guard:
  \<open>-1\<close> resolves to the last candidate, and an index below \<open>-len(chunks)\<close> raises
  \<^verbatim>\<open>IndexError\<close>, which ends each of the three entry points with that exception
  instead of a theme response.
\<close>

theorem theme_index_below_range_raises:
  "resolve_indices [passage_a, passage_b] [0, 5, -1] = Inr [passage_a, passage_b] \<and>
   resolve_indices [passage_a, passage_b] [0, -3] = Inl IndexError \<and>
   extract_themes
     (sample_engine [ConvertedChunk passage_a, ConvertedChunk passage_b]
        [\<lparr>theme_name = ''Refunds'', document_indices = [0, -3]\<rparr>])
     ''refund policy'' None = Inl IndexError \<and>
   extract_themes_for_document
     (sample_engine [] [\<lparr>theme_name = ''Refunds'', document_indices = [0, -3]\<rparr>])
     ''doc-B'' = Inl IndexError \<and>
   extract_all_themes iteration_order
     (sample_engine [] [\<lparr>theme_name = ''Refunds'', document_indices = [0, -3]\<rparr>])
     = Inl IndexError"
  by (simp add: extract_themes_def extract_themes_for_document_def extract_all_themes_def
      sample_engine_def apply_filters_def py_index_def Let_def)

end
